theory Spec2Isabelle
  imports Complex_Main
begin

section \<open>Python values\<close>

text \<open>
  The script \<^verbatim>\<open>wifi.py\<close> works on the values that a JSON parser returns: \<^verbatim>\<open>None\<close>,
  booleans, integers, floats, strings, lists and dictionaries with string keys. A
  dictionary is an association list read with \<open>map_of\<close>; a string is a list of
  characters, each one code point below 256.

  A float is carried by its exact value: a finite float is the rational number it
  stands for, next to the three special values. Comparisons of floats, and of a float
  with an integer, are exact in Python, so they are comparisons of these values. The
  rounding of a decimal text or of an integer above \<open>2 ^ 53\<close> to the nearest float is
  not part of the model, and neither is the sign of zero.
\<close>

datatype pyfloat = Fin rat | NaN | PosInf | NegInf

datatype pyval =
    PNone
  | PBool bool
  | PInt int
  | PFloat pyfloat
  | PStr string
  | PList "pyval list"
  | PDict "(string \<times> pyval) list"

text \<open>A number as the score table holds it: an \<^verbatim>\<open>int\<close> or a \<^verbatim>\<open>float\<close>.\<close>

datatype pynum = NInt int | NFloat pyfloat

datatype error =
    AttributeError
  | IndexError
  | KeyError
  | OverflowError
  | TypeError
  | ValueError

text \<open>
  What the script takes from the interpreter and from pandas, and what this theory does
  not define: the reading of a text as a float (\<^verbatim>\<open>float(s)\<close>, \<open>None\<close> for
  \<^verbatim>\<open>ValueError\<close>), the printing of a float and of a quoted string (\<^verbatim>\<open>repr\<close>), and
  \<^verbatim>\<open>pd.to_datetime(...).dt.tz_localize(None)\<close> on the column of dates. Every function
  below takes them as the parameter \<open>lib\<close>, and every theorem holds for all of them.
\<close>

record pylib =
  float_of_str :: "string \<Rightarrow> pyfloat option"
  repr_float :: "pyfloat \<Rightarrow> string"
  repr_str :: "string \<Rightarrow> string"
  to_datetime :: "pyval list \<Rightarrow> error + pyval list"

text \<open>An exception ends the computation: the first \<open>Inl\<close> is the result.\<close>

fun bnd :: "error + 'a \<Rightarrow> ('a \<Rightarrow> error + 'b) \<Rightarrow> error + 'b" where
  "bnd (Inl e) f = Inl e"
| "bnd (Inr x) f = f x"

subsection \<open>Numbers\<close>

fun float_lt :: "pyfloat \<Rightarrow> pyfloat \<Rightarrow> bool" where
  "float_lt NaN g = False"
| "float_lt f NaN = False"
| "float_lt (Fin a) (Fin b) = (a < b)"
| "float_lt f NegInf = False"
| "float_lt NegInf g = True"
| "float_lt PosInf g = False"
| "float_lt (Fin a) PosInf = True"

fun float_le :: "pyfloat \<Rightarrow> pyfloat \<Rightarrow> bool" where
  "float_le NaN g = False"
| "float_le f NaN = False"
| "float_le (Fin a) (Fin b) = (a \<le> b)"
| "float_le NegInf g = True"
| "float_le f NegInf = False"
| "float_le f PosInf = True"
| "float_le PosInf (Fin b) = False"

fun float_neg :: "pyfloat \<Rightarrow> pyfloat" where
  "float_neg (Fin a) = Fin (- a)"
| "float_neg NaN = NaN"
| "float_neg PosInf = NegInf"
| "float_neg NegInf = PosInf"

fun num_val :: "pynum \<Rightarrow> pyfloat" where
  "num_val (NInt i) = Fin (of_int i)"
| "num_val (NFloat f) = f"

definition num_lt :: "pynum \<Rightarrow> pynum \<Rightarrow> bool" where
  "num_lt a b = float_lt (num_val a) (num_val b)"

fun pyval_of_num :: "pynum \<Rightarrow> pyval" where
  "pyval_of_num (NInt i) = PInt i"
| "pyval_of_num (NFloat f) = PFloat f"

text \<open>\<^verbatim>\<open>min(a, b)\<close> keeps \<open>a\<close> unless \<open>b < a\<close>; with a NaN every comparison is false.\<close>

definition py_min2 :: "pynum \<Rightarrow> pynum \<Rightarrow> pynum" where
  "py_min2 a b = (if num_lt b a then b else a)"

text \<open>
  \<^verbatim>\<open>max(iterable)\<close> starts from the first element and replaces it by each later one
  that is strictly greater; on an empty iterable it raises \<^verbatim>\<open>ValueError\<close>.
\<close>

fun py_max :: "pynum list \<Rightarrow> error + pynum" where
  "py_max [] = Inl ValueError"
| "py_max (x # xs) = Inr (foldl (\<lambda>m y. if num_lt m y then y else m) x xs)"

text \<open>
  \<^verbatim>\<open>float(v)\<close>. An integer too large for a float raises \<^verbatim>\<open>OverflowError\<close>: the first
  such integer is halfway between the largest float and \<open>2 ^ 1024\<close>.
\<close>

definition float_int_limit :: int where
  "float_int_limit = 2 ^ 1024 - 2 ^ 970"

fun py_float :: "pylib \<Rightarrow> pyval \<Rightarrow> error + pyfloat" where
  "py_float lib PNone = Inl TypeError"
| "py_float lib (PBool b) = Inr (Fin (if b then 1 else 0))"
| "py_float lib (PInt i) =
     (if float_int_limit \<le> \<bar>i\<bar> then Inl OverflowError else Inr (Fin (of_int i)))"
| "py_float lib (PFloat f) = Inr f"
| "py_float lib (PStr s) =
     (case float_of_str lib s of None \<Rightarrow> Inl ValueError | Some f \<Rightarrow> Inr f)"
| "py_float lib (PList xs) = Inl TypeError"
| "py_float lib (PDict d) = Inl TypeError"

text \<open>Unary minus: defined on numbers (a boolean counts as 0 or 1).\<close>

fun py_neg :: "pyval \<Rightarrow> error + pynum" where
  "py_neg (PInt i) = Inr (NInt (- i))"
| "py_neg (PBool b) = Inr (NInt (- (if b then 1 else 0)))"
| "py_neg (PFloat f) = Inr (NFloat (float_neg f))"
| "py_neg v = Inl TypeError"

fun py_truthy :: "pyval \<Rightarrow> bool" where
  "py_truthy PNone = False"
| "py_truthy (PBool b) = b"
| "py_truthy (PInt i) = (i \<noteq> 0)"
| "py_truthy (PFloat f) = (f \<noteq> Fin 0)"
| "py_truthy (PStr s) = (s \<noteq> [])"
| "py_truthy (PList xs) = (xs \<noteq> [])"
| "py_truthy (PDict d) = (d \<noteq> [])"

subsection \<open>Strings\<close>

definition is_digit :: "char \<Rightarrow> bool" where
  "is_digit c = (let n = (of_char c :: nat) in 48 \<le> n \<and> n \<le> 57)"

text \<open>The characters below 256 for which \<^verbatim>\<open>str.isspace\<close> holds.\<close>

definition is_space :: "char \<Rightarrow> bool" where
  "is_space c = (let n = (of_char c :: nat) in
     (9 \<le> n \<and> n \<le> 13) \<or> (28 \<le> n \<and> n \<le> 32) \<or> n = 133 \<or> n = 160)"

text \<open>
  \<^verbatim>\<open>str.lower\<close> on code points below 256: the letters A to Z and the accented capitals
  192 to 222 (215, the multiplication sign, apart) move up by 32.
\<close>

definition lower_char :: "char \<Rightarrow> char" where
  "lower_char c = (let n = (of_char c :: nat) in
     if (65 \<le> n \<and> n \<le> 90) \<or> (192 \<le> n \<and> n \<le> 222 \<and> n \<noteq> 215)
     then char_of (n + 32) else c)"

definition py_lower :: "string \<Rightarrow> string" where
  "py_lower s = map lower_char s"

text \<open>
  \<^verbatim>\<open>str.upper\<close>, on the letters a to z. The script applies it to the keys of its own
  table only, which are ASCII.
\<close>

definition upper_char :: "char \<Rightarrow> char" where
  "upper_char c = (let n = (of_char c :: nat) in
     if 97 \<le> n \<and> n \<le> 122 then char_of (n - 32) else c)"

definition py_upper :: "string \<Rightarrow> string" where
  "py_upper s = map upper_char s"

definition py_strip :: "string \<Rightarrow> string" where
  "py_strip s = rev (dropWhile is_space (rev (dropWhile is_space s)))"

text \<open>\<^verbatim>\<open>s.startswith(p)\<close> on two strings.\<close>

fun starts_with :: "string \<Rightarrow> string \<Rightarrow> bool" where
  "starts_with s [] = True"
| "starts_with [] (p # ps) = False"
| "starts_with (c # cs) (p # ps) = (c = p \<and> starts_with cs ps)"

text \<open>\<^verbatim>\<open>needle in hay\<close> on two strings: \<open>needle\<close> starts at some position of \<open>hay\<close>.\<close>

fun str_in :: "string \<Rightarrow> string \<Rightarrow> bool" where
  "str_in needle [] = (needle = [])"
| "str_in needle (c # cs) = (starts_with (c # cs) needle \<or> str_in needle cs)"

text \<open>
  A method that only strings have, called on any value: \<^verbatim>\<open>v.startswith(p)\<close> raises
  \<^verbatim>\<open>AttributeError\<close> when \<open>v\<close> is not a string.
\<close>

fun py_startswith :: "pyval \<Rightarrow> string \<Rightarrow> error + bool" where
  "py_startswith (PStr s) p = Inr (starts_with s p)"
| "py_startswith v p = Inl AttributeError"

subsection \<open>Printing\<close>

definition digit_char :: "nat \<Rightarrow> char" where
  "digit_char n = char_of (48 + n)"

function show_nat :: "nat \<Rightarrow> string" where
  "show_nat n = (if n < 10 then [digit_char n] else show_nat (n div 10) @ [digit_char (n mod 10)])"
  by pat_completeness auto
termination
  by (relation "measure (\<lambda>n. n)") auto

definition show_int :: "int \<Rightarrow> string" where
  "show_int i = (if i < 0 then CHR ''-'' # show_nat (nat (- i)) else show_nat (nat i))"

fun join_comma :: "string list \<Rightarrow> string" where
  "join_comma [] = []"
| "join_comma [s] = s"
| "join_comma (s # t # ts) = s @ '', '' @ join_comma (t # ts)"

text \<open>
  \<^verbatim>\<open>repr(v)\<close>: the containers print their elements' \<^verbatim>\<open>repr\<close> between brackets; floats
  and quoted strings are the library's.
\<close>

fun py_repr :: "pylib \<Rightarrow> pyval \<Rightarrow> string" where
  "py_repr lib PNone = ''None''"
| "py_repr lib (PBool b) = (if b then ''True'' else ''False'')"
| "py_repr lib (PInt i) = show_int i"
| "py_repr lib (PFloat f) = repr_float lib f"
| "py_repr lib (PStr s) = repr_str lib s"
| "py_repr lib (PList xs) = ''['' @ join_comma (map (py_repr lib) xs) @ '']''"
| "py_repr lib (PDict d) =
     ''{'' @ join_comma (map (\<lambda>kv. repr_str lib (fst kv) @ '': '' @ py_repr lib (snd kv)) d) @ ''}''"

text \<open>\<^verbatim>\<open>str(v)\<close> is the string itself for a string and \<^verbatim>\<open>repr(v)\<close> otherwise.\<close>

fun py_str :: "pylib \<Rightarrow> pyval \<Rightarrow> string" where
  "py_str lib (PStr s) = s"
| "py_str lib v = py_repr lib v"

subsection \<open>Containers\<close>

text \<open>\<^verbatim>\<open>d.get(k, default)\<close> on a dictionary.\<close>

definition dict_get :: "(string \<times> pyval) list \<Rightarrow> string \<Rightarrow> pyval \<Rightarrow> pyval" where
  "dict_get d k dflt = (case map_of d k of None \<Rightarrow> dflt | Some v \<Rightarrow> v)"

text \<open>\<^verbatim>\<open>v.get(k, default)\<close> on any value: only a dictionary has the method.\<close>

fun py_get :: "pyval \<Rightarrow> string \<Rightarrow> pyval \<Rightarrow> error + pyval" where
  "py_get (PDict d) k dflt = Inr (dict_get d k dflt)"
| "py_get v k dflt = Inl AttributeError"

text \<open>
  \<^verbatim>\<open>v[k]\<close> with a string \<open>k\<close>: a missing key is a \<^verbatim>\<open>KeyError\<close>; a string or a list
  wants an integer index, and the other values have no subscript.
\<close>

fun py_item :: "pyval \<Rightarrow> string \<Rightarrow> error + pyval" where
  "py_item (PDict d) k = (case map_of d k of None \<Rightarrow> Inl KeyError | Some v \<Rightarrow> Inr v)"
| "py_item v k = Inl TypeError"

text \<open>\<^verbatim>\<open>k in v\<close> with a string \<open>k\<close>.\<close>

fun py_contains :: "string \<Rightarrow> pyval \<Rightarrow> error + bool" where
  "py_contains k (PDict d) = Inr (k \<in> set (map fst d))"
| "py_contains k (PStr s) = Inr (str_in k s)"
| "py_contains k (PList xs) = Inr (PStr k \<in> set xs)"
| "py_contains k v = Inl TypeError"

text \<open>\<^verbatim>\<open>list(v.keys())\<close>.\<close>

fun py_keys :: "pyval \<Rightarrow> error + pyval" where
  "py_keys (PDict d) = Inr (PList (map (\<lambda>kv. PStr (fst kv)) d))"
| "py_keys v = Inl AttributeError"

text \<open>
  \<^verbatim>\<open>v[0]\<close>: the first element of a list, the first character of a string; an empty
  one raises \<^verbatim>\<open>IndexError\<close>. A dictionary looks the key \<open>0\<close> up, which no JSON object
  has.
\<close>

fun py_first :: "pyval \<Rightarrow> error + pyval" where
  "py_first (PList []) = Inl IndexError"
| "py_first (PList (x # xs)) = Inr x"
| "py_first (PStr []) = Inl IndexError"
| "py_first (PStr (c # cs)) = Inr (PStr [c])"
| "py_first (PDict d) = Inl KeyError"
| "py_first v = Inl TypeError"

text \<open>
  \<^verbatim>\<open>v[:8]\<close>: strings and lists have slices. On a dictionary the slice is used as a key
  and the access raises (\<^verbatim>\<open>TypeError\<close> up to Python 3.11, where a slice cannot be
  hashed).
\<close>

fun py_slice8 :: "pyval \<Rightarrow> error + pyval" where
  "py_slice8 (PStr s) = Inr (PStr (take 8 s))"
| "py_slice8 (PList xs) = Inr (PList (take 8 xs))"
| "py_slice8 v = Inl TypeError"

fun py_len :: "pyval \<Rightarrow> error + nat" where
  "py_len (PStr s) = Inr (length s)"
| "py_len (PList xs) = Inr (length xs)"
| "py_len (PDict d) = Inr (length d)"
| "py_len v = Inl TypeError"

text \<open>
  What a \<^verbatim>\<open>for\<close> loop runs over: the characters of a string, the elements of a list,
  the keys of a dictionary.
\<close>

fun py_iter :: "pyval \<Rightarrow> error + pyval list" where
  "py_iter (PStr s) = Inr (map (\<lambda>c. PStr [c]) s)"
| "py_iter (PList xs) = Inr xs"
| "py_iter (PDict d) = Inr (map (\<lambda>kv. PStr (fst kv)) d)"
| "py_iter v = Inl TypeError"

section \<open>The record normalizer\<close>

text \<open>
  The body of the loop \<^verbatim>\<open>for row in data\<close> builds one dictionary per input record; its
  keys are the columns of the inventory, in this order.
\<close>

type_synonym row = "(string \<times> pyval) list"

definition columns :: "string list" where
  "columns = [''date'', ''bssid'', ''oui_vendor'', ''ssid'', ''chan'', ''bandwidth'',
     ''bandwidth_mhz'', ''beacon_int'', ''rssi_dbm'', ''ie_keys'', ''rsn_ies'',
     ''entropy_penalty'']"

text \<open>
  \<^verbatim>\<open>re.search(r'(\d+)', bw_raw)\<close> finds the first run of digits, and \<^verbatim>\<open>int\<close> reads it
  in base ten.
\<close>

definition first_digits :: "string \<Rightarrow> string" where
  "first_digits s = takeWhile is_digit (dropWhile (\<lambda>c. \<not> is_digit c) s)"

definition int_of_digits :: "string \<Rightarrow> int" where
  "int_of_digits ds = foldl (\<lambda>a c. 10 * a + (of_char c - 48)) 0 ds"

definition bandwidth_mhz :: "string \<Rightarrow> pyval" where
  "bandwidth_mhz bw_raw =
     (let m = first_digits bw_raw in if m \<noteq> [] then PInt (int_of_digits m) else PNone)"

text \<open>
  \<^verbatim>\<open>
  try:
      entropy = int(len(bssid) * 2.5)
  except Exception:
      entropy = np.nan
  ent_penalty = min(entropy, 100)
  \<close>
  The product with 2.5 is exact for every length a string can have, and \<^verbatim>\<open>int\<close>
  drops the half. The length is that of the whole \<^verbatim>\<open>mac_addr\<close> value.
\<close>

definition entropy :: "pyval \<Rightarrow> pynum" where
  "entropy bssid =
     (case py_len bssid of Inr n \<Rightarrow> NInt (5 * int n div 2) | Inl e \<Rightarrow> NFloat NaN)"

definition ent_penalty :: "pyval \<Rightarrow> pynum" where
  "ent_penalty bssid = py_min2 (entropy bssid) (NInt 100)"

text \<open>
  \<^verbatim>\<open>
  if "beacon_int" in row:
      beacon_int = float(row["beacon_int"])
  else:
      beacon_int = np.nan
  \<close>
\<close>

definition beacon_int :: "pylib \<Rightarrow> pyval \<Rightarrow> error + pyfloat" where
  "beacon_int lib row =
     bnd (py_contains ''beacon_int'' row) (\<lambda>present.
       if present then bnd (py_item row ''beacon_int'') (py_float lib) else Inr NaN)"

text \<open>\<^verbatim>\<open>float(row.get("rssis", {}).get("all", [np.nan])[0])\<close>\<close>

definition rssi_dbm :: "pylib \<Rightarrow> pyval \<Rightarrow> error + pyfloat" where
  "rssi_dbm lib row =
     bnd (py_get row ''rssis'' (PDict [])) (\<lambda>rssis.
     bnd (py_get rssis ''all'' (PList [PFloat NaN])) (\<lambda>all.
     bnd (py_first all) (\<lambda>best.
     py_float lib best)))"

text \<open>
  One pass of the loop, statement by statement; the entries of the dictionary are
  evaluated in the order they are written, so the slice of \<^verbatim>\<open>bssid\<close> comes before
  \<^verbatim>\<open>row["ssid"]\<close> and the latter before the RSSI.
\<close>

definition normalize_row :: "pylib \<Rightarrow> pyval \<Rightarrow> error + row" where
  "normalize_row lib row =
     bnd (py_get row ''timestamp'' PNone) (\<lambda>date_str.
     bnd (py_get row ''mac_addr'' (PStr [])) (\<lambda>bssid.
     bnd (py_get row ''vendor'' (PStr [])) (\<lambda>oui.
     bnd (py_get row ''ie_info'' (PStr [])) (\<lambda>ie_info.
     bnd (py_get ie_info ''RSN'' (PList [])) (\<lambda>rsn_ies.
     bnd (py_item row ''ie_info'') (\<lambda>ie_info'.
     bnd (py_keys ie_info') (\<lambda>ie_keys.
     bnd (beacon_int lib row) (\<lambda>beacon.
     bnd (py_get row ''bandwidth'' (PStr [])) (\<lambda>bw.
     let bw_raw = py_strip (py_str lib bw);
         bw_mhz = bandwidth_mhz bw_raw
     in
     bnd (py_slice8 bssid) (\<lambda>bssid8.
     bnd (py_item row ''ssid'') (\<lambda>ssid.
     bnd (py_get row ''channel'' (PStr [])) (\<lambda>chan.
     bnd (rssi_dbm lib row) (\<lambda>rssi.
     Inr [(''date'', date_str),
          (''bssid'', bssid8),
          (''oui_vendor'', oui),
          (''ssid'', ssid),
          (''chan'', chan),
          (''bandwidth'', PStr bw_raw),
          (''bandwidth_mhz'', bw_mhz),
          (''beacon_int'', PFloat beacon),
          (''rssi_dbm'', PFloat rssi),
          (''ie_keys'', ie_keys),
          (''rsn_ies'', PStr (take 60 (py_str lib rsn_ies))),
          (''entropy_penalty'', pyval_of_num (ent_penalty bssid))])))))))))))))"

text \<open>The loop stops at the first record that raises.\<close>

fun normalize_rows :: "pylib \<Rightarrow> pyval list \<Rightarrow> error + row list" where
  "normalize_rows lib [] = Inr []"
| "normalize_rows lib (r # rs) =
     bnd (normalize_row lib r) (\<lambda>x. bnd (normalize_rows lib rs) (\<lambda>xs. Inr (x # xs)))"

section \<open>The scorer\<close>

text \<open>\<^verbatim>\<open>row[k]\<close> and \<^verbatim>\<open>row.get(k)\<close> on a row of the table.\<close>

definition row_item :: "row \<Rightarrow> string \<Rightarrow> error + pyval" where
  "row_item row k = (case map_of row k of None \<Rightarrow> Inl KeyError | Some v \<Rightarrow> Inr v)"

definition row_get :: "row \<Rightarrow> string \<Rightarrow> pyval" where
  "row_get row k = (case map_of row k of None \<Rightarrow> PNone | Some v \<Rightarrow> v)"

definition base_vendor :: "(string \<times> string) list" where
  "base_vendor = [(''Aironet'', ''00:04:5A''), (''Ralink'', ''00:2B:81'')]"

text \<open>
  \<^verbatim>\<open>
  for key in base_vendor:
      if key.lower() in ssid.lower():
          return True
  return False
  \<close>
\<close>

fun match_keys :: "string list \<Rightarrow> pyval \<Rightarrow> error + bool" where
  "match_keys [] ssid = Inr False"
| "match_keys (key # keys) ssid =
     (case ssid of
        PStr s \<Rightarrow> if str_in (py_lower key) (py_lower s) then Inr True else match_keys keys ssid
      | _ \<Rightarrow> Inl AttributeError)"

definition match_oui :: "pyval \<Rightarrow> pyval \<Rightarrow> error + bool" where
  "match_oui ssid vendor = match_keys (map fst base_vendor) ssid"

record scores =
  ouinomismatch :: pynum
  rsnmismatch :: pynum
  multi_channel :: pynum
  timing_anomalie :: pynum
  entropy_penalty :: pynum
  total_score :: pynum

text \<open>\<^verbatim>\<open>scores.values()\<close>, in the order of the keys.\<close>

definition score_values :: "scores \<Rightarrow> pynum list" where
  "score_values s = [ouinomismatch s, rsnmismatch s, multi_channel s, timing_anomalie s,
     entropy_penalty s, total_score s]"

definition base_expected :: "(string \<times> string) list" where
  "base_expected = [(''WPA2'', ''RSNIE:AuthAlg=CCMP''), (''WPA3'', ''RSNIE:AuthAlg=OWE''),
     (''WEP'', []), (''WPA/TKIP'', ''RSNIE:AuthAlg=TSC'')]"

text \<open>
  \<^verbatim>\<open>
  for k in base_expected:
      if "WEP" in k.lower():
          expected_ies.append("WEP")
      else:
          expected_ies.append(k.upper())
  \<close>
\<close>

definition expected_ies :: "string list" where
  "expected_ies =
     map (\<lambda>k. if str_in ''WEP'' (py_lower k) then ''WEP'' else py_upper k) (map fst base_expected)"

text \<open>
  \<^verbatim>\<open>
  for ie_type in rsn_ies:
      if ie_type in expected_ies:
          scores["rsnmismatch"] = 0
  \<close>
\<close>

fun rsn_loop :: "pyval list \<Rightarrow> scores \<Rightarrow> scores" where
  "rsn_loop [] sc = sc"
| "rsn_loop (ie_type # rest) sc =
     rsn_loop rest
       (if ie_type \<in> set (map PStr expected_ies) then sc\<lparr>rsnmismatch := NInt 0\<rparr> else sc)"

text \<open>
  \<^verbatim>\<open>
  row["bandwidth"].startswith("40") or row["bandwidth"].startswith("80") or
  row.get("multi_channel")
  \<close>
  Each operand is evaluated only when the ones before it are false.
\<close>

definition multi_channel_cond :: "row \<Rightarrow> error + bool" where
  "multi_channel_cond row =
     bnd (row_item row ''bandwidth'') (\<lambda>bw.
     bnd (py_startswith bw ''40'') (\<lambda>a.
     if a then Inr True
     else bnd (row_item row ''bandwidth'') (\<lambda>bw'.
          bnd (py_startswith bw' ''80'') (\<lambda>b.
          if b then Inr True
          else Inr (py_truthy (row_get row ''multi_channel''))))))"

text \<open>
  \<^verbatim>\<open>
  timing_ok = False
  try:
      if float(row["beacon_int"]) >= 10.000 and float(row["beacon_int"]) <= 10000:
          timing_ok = True
  except Exception as e:
      pass
  \<close>
\<close>

definition timing_ok :: "pylib \<Rightarrow> row \<Rightarrow> bool" where
  "timing_ok lib row =
     (case bnd (row_item row ''beacon_int'') (py_float lib) of
        Inl e \<Rightarrow> False
      | Inr f \<Rightarrow>
          if float_le (Fin 10) f then
            (case bnd (row_item row ''beacon_int'') (py_float lib) of
               Inl e \<Rightarrow> False
             | Inr g \<Rightarrow> float_le g (Fin 10000))
          else False)"

definition compute_scores :: "pylib \<Rightarrow> row \<Rightarrow> error + scores" where
  "compute_scores lib row =
     bnd (row_item row ''oui_vendor'') (\<lambda>oui.
     bnd (row_item row ''ssid'') (\<lambda>ssid.
     bnd (match_oui ssid oui) (\<lambda>vendor_match.
     bnd (row_item row ''entropy_penalty'') (\<lambda>ep.
     bnd (py_neg ep) (\<lambda>neg_ep.
     let scores0 = \<lparr>ouinomismatch = NInt 0, rsnmismatch = NInt 0, multi_channel = NInt 0,
           timing_anomalie = NInt 0, entropy_penalty = neg_ep, total_score = NInt 0\<rparr>;
         scores1 = (if \<not> vendor_match then scores0\<lparr>ouinomismatch := NInt 3\<rparr> else scores0)
     in
     bnd (row_item row ''rsn_ies'') (\<lambda>rsn_ies.
     bnd (py_iter rsn_ies) (\<lambda>ie_types.
     let scores2 = rsn_loop ie_types scores1 in
     bnd (multi_channel_cond row) (\<lambda>mc.
     let scores3 = (if mc then scores2\<lparr>multi_channel := NInt 2\<rparr> else scores2);
         scores4 = (if \<not> timing_ok lib row then scores3\<lparr>timing_anomalie := NInt 3\<rparr>
                    else scores3)
     in
     bnd (py_max (score_values scores4)) (\<lambda>total.
     Inr (scores4\<lparr>total_score := total\<rparr>))))))))))"

section \<open>The run\<close>

text \<open>
  \<^verbatim>\<open>df.apply(compute_scores, axis=1)\<close>: the scorer on each row in turn, the first
  exception ending the run.
\<close>

fun score_rows :: "pylib \<Rightarrow> row list \<Rightarrow> error + scores list" where
  "score_rows lib [] = Inr []"
| "score_rows lib (r # rs) =
     bnd (compute_scores lib r) (\<lambda>x. bnd (score_rows lib rs) (\<lambda>xs. Inr (x # xs)))"

definition set_date :: "row \<Rightarrow> pyval \<Rightarrow> row" where
  "set_date r d = map (\<lambda>kv. if fst kv = ''date'' then (''date'', d) else kv) r"

text \<open>
  The main block after the JSON file is read, from the parsed value to the table that
  \<^verbatim>\<open>write_csv\<close> writes. \<open>Inr df\<close> is a run that reached \<^verbatim>\<open>write_csv\<close> and wrote \<open>df\<close>;
  \<open>Inl e\<close> is a run that an exception ended, and since \<^verbatim>\<open>write_csv\<close> is the last
  statement, a run that wrote no file. The scores are computed and dropped, as in the
  script. The table holds the values as the rows have them: the column types that
  pandas infers are not modelled, the library returns one date for each row, and
  writing the file is taken to succeed.
\<close>

definition main :: "pylib \<Rightarrow> pyval \<Rightarrow> error + row list" where
  "main lib data =
     bnd (py_iter data) (\<lambda>records.
     bnd (normalize_rows lib records) (\<lambda>rows.
     bnd (to_datetime lib (map (\<lambda>r. row_get r ''date'') rows)) (\<lambda>dates.
     let df = map2 set_date rows dates in
     bnd (score_rows lib df) (\<lambda>df_scores.
     Inr df))))"

section \<open>Example inputs\<close>

text \<open>
  A library to run the closed examples with. It reads a text as a float only when the
  text is a plain run of digits, prints a finite float as its integer part followed by
  \<^verbatim>\<open>.0\<close>, puts a string between single quotes and leaves the dates as they are.
  The examples below convert no text, print neither a float nor a quoted string and
  stop before the dates or do not look at them, so none of them depends on it: the
  theorems they come from are stated for every \<open>lib\<close>.
\<close>

definition example_lib :: pylib where
  "example_lib = \<lparr>
     float_of_str = (\<lambda>s. if s \<noteq> [] \<and> list_all is_digit s
                          then Some (Fin (of_int (int_of_digits s))) else None),
     repr_float = (\<lambda>f. case f of Fin q \<Rightarrow> show_int \<lfloor>q\<rfloor> @ ''.0'' | NaN \<Rightarrow> ''nan''
                          | PosInf \<Rightarrow> ''inf'' | NegInf \<Rightarrow> ''-inf''),
     repr_str = (\<lambda>s. [CHR 0x27] @ s @ [CHR 0x27]),
     to_datetime = Inr\<rparr>"

text \<open>
  The record of the end-to-end scenario:
  \<^verbatim>\<open>{"timestamp": "2024-01-01T00:00:00", "mac_addr": "AA:BB:CC:DD:EE:FF",
    "vendor": "Acme", "ssid": "FreeWifi", "channel": 6, "bandwidth": "HT/20",
    "beacon_int": 100, "rssis": {"all": [-40]}, "ie_info": {"RSN": []}}\<close>
\<close>

definition example_fields :: "(string \<times> pyval) list" where
  "example_fields =
     [(''timestamp'', PStr ''2024-01-01T00:00:00''),
      (''mac_addr'', PStr ''AA:BB:CC:DD:EE:FF''),
      (''vendor'', PStr ''Acme''),
      (''ssid'', PStr ''FreeWifi''),
      (''channel'', PInt 6),
      (''bandwidth'', PStr ''HT/20''),
      (''beacon_int'', PInt 100),
      (''rssis'', PDict [(''all'', PList [PInt (- 40)])]),
      (''ie_info'', PDict [(''RSN'', PList [])])]"

definition example_record :: pyval where
  "example_record = PDict example_fields"

text \<open>The same record with one field given another value, and with one field removed.\<close>

definition replace_field :: "string \<Rightarrow> pyval \<Rightarrow> (string \<times> pyval) list \<Rightarrow> (string \<times> pyval) list" where
  "replace_field k v d = map (\<lambda>kv. if fst kv = k then (k, v) else kv) d"

definition remove_field :: "string \<Rightarrow> (string \<times> pyval) list \<Rightarrow> (string \<times> pyval) list" where
  "remove_field k d = filter (\<lambda>kv. fst kv \<noteq> k) d"

text \<open>The row that the normalizer makes of the example record.\<close>

definition example_row :: row where
  "example_row =
     [(''date'', PStr ''2024-01-01T00:00:00''),
      (''bssid'', PStr ''AA:BB:CC''),
      (''oui_vendor'', PStr ''Acme''),
      (''ssid'', PStr ''FreeWifi''),
      (''chan'', PInt 6),
      (''bandwidth'', PStr ''HT/20''),
      (''bandwidth_mhz'', PInt 20),
      (''beacon_int'', PFloat (Fin 100)),
      (''rssi_dbm'', PFloat (Fin (- 40))),
      (''ie_keys'', PList [PStr ''RSN'']),
      (''rsn_ies'', PStr ''[]''),
      (''entropy_penalty'', PInt 42)]"

text \<open>The scores of that row.\<close>

definition example_scores :: scores where
  "example_scores = \<lparr>ouinomismatch = NInt 3, rsnmismatch = NInt 0, multi_channel = NInt 0,
     timing_anomalie = NInt 0, entropy_penalty = NInt (- 42), total_score = NInt 3\<rparr>"

text \<open>
  The entropy penalty as the specification words it, a function of the truncated
  display string: \<^verbatim>\<open>min(int(len(bssid[:8]) * 2.5), 100)\<close>.
\<close>

definition spec_entropy_penalty :: "string \<Rightarrow> pyval" where
  "spec_entropy_penalty bssid_display = PInt (min (5 * int (length bssid_display) div 2) 100)"

section \<open>Basic facts\<close>

lemma bnd_InrE: "bnd m f = Inr y \<Longrightarrow> (\<And>x. m = Inr x \<Longrightarrow> f x = Inr y \<Longrightarrow> P) \<Longrightarrow> P"
  by (cases m) auto

lemma isl_bnd: "isl (bnd m f) \<longleftrightarrow> (case m of Inl e \<Rightarrow> True | Inr x \<Rightarrow> isl (f x))"
  by (cases m) auto

text \<open>The loop over the RSN entries writes 0 over 0: it leaves the table as it was.\<close>

lemma rsnmismatch_update_id: "rsnmismatch sc = NInt 0 \<Longrightarrow> sc\<lparr>rsnmismatch := NInt 0\<rparr> = sc"
  by (cases sc) simp

lemma rsn_loop_id: "rsnmismatch sc = NInt 0 \<Longrightarrow> rsn_loop ies sc = sc"
  by (induction ies) (simp_all add: rsnmismatch_update_id)

text \<open>What a call of the scorer that returns has computed.\<close>

lemma compute_scores_Inr:
  assumes "compute_scores lib row = Inr s"
  obtains oui ssid vm ep neg_ep rsn ies mc total where
      "row_item row ''oui_vendor'' = Inr oui" "row_item row ''ssid'' = Inr ssid"
      "match_oui ssid oui = Inr vm" "row_item row ''entropy_penalty'' = Inr ep"
      "py_neg ep = Inr neg_ep" "row_item row ''rsn_ies'' = Inr rsn" "py_iter rsn = Inr ies"
      "multi_channel_cond row = Inr mc"
      "py_max [if vm then NInt 0 else NInt 3, NInt 0, if mc then NInt 2 else NInt 0,
         if timing_ok lib row then NInt 0 else NInt 3, neg_ep, NInt 0] = Inr total"
      "s = \<lparr>ouinomismatch = (if vm then NInt 0 else NInt 3), rsnmismatch = NInt 0,
         multi_channel = (if mc then NInt 2 else NInt 0),
         timing_anomalie = (if timing_ok lib row then NInt 0 else NInt 3),
         entropy_penalty = neg_ep, total_score = total\<rparr>"
  using assms unfolding compute_scores_def Let_def
  apply (elim bnd_InrE)
  subgoal for oui ssid vm ep neg_ep rsn ies mc total
    apply (rule that [of oui ssid vm ep neg_ep rsn ies mc total])
             apply assumption+
     apply (cases vm; cases mc; cases "timing_ok lib row"; simp add: rsn_loop_id score_values_def)
    apply (cases vm; cases mc; cases "timing_ok lib row"; simp add: rsn_loop_id score_values_def)
    done
  done

lemma row_item_Inr: "row_item row k = Inr v \<longleftrightarrow> map_of row k = Some v"
  by (auto simp: row_item_def split: option.splits)

text \<open>What a pass of the loop that appends a row has computed.\<close>

lemma normalize_row_Inr:
  assumes "normalize_row lib row = Inr r"
  obtains d bssid8 ssid beacon rssi ie_keys rsn where
    "row = PDict d"
    "py_slice8 (dict_get d ''mac_addr'' (PStr [])) = Inr bssid8"
    "map_of d ''ssid'' = Some ssid"
    "beacon_int lib row = Inr beacon"
    "rssi_dbm lib row = Inr rssi"
    "r = [(''date'', dict_get d ''timestamp'' PNone),
          (''bssid'', bssid8),
          (''oui_vendor'', dict_get d ''vendor'' (PStr [])),
          (''ssid'', ssid),
          (''chan'', dict_get d ''channel'' (PStr [])),
          (''bandwidth'', PStr (py_strip (py_str lib (dict_get d ''bandwidth'' (PStr []))))),
          (''bandwidth_mhz'',
             bandwidth_mhz (py_strip (py_str lib (dict_get d ''bandwidth'' (PStr []))))),
          (''beacon_int'', PFloat beacon),
          (''rssi_dbm'', PFloat rssi),
          (''ie_keys'', ie_keys),
          (''rsn_ies'', PStr (take 60 (py_str lib rsn))),
          (''entropy_penalty'', pyval_of_num (ent_penalty (dict_get d ''mac_addr'' (PStr []))))]"
proof -
  from assms obtain d where d: "row = PDict d"
    unfolding normalize_row_def by (cases row) simp_all
  from assms show ?thesis
    unfolding normalize_row_def Let_def
    apply (elim bnd_InrE)
    subgoal for date_str bssid oui ie_info rsn_ies ie_info' ie_keys beacon bw bssid8 ssid chan rssi
      apply (rule that [of d bssid8 ssid beacon rssi ie_keys rsn_ies])
           apply (rule d)
          apply (simp add: d)
         apply (simp add: d split: option.splits)
        apply assumption
       apply assumption
      apply (simp add: d)
      done
    done
qed

subsection \<open>The examples, evaluated\<close>

lemmas eval_defs = normalize_row_def beacon_int_def rssi_dbm_def dict_get_def float_int_limit_def
  py_strip_def is_space_def bandwidth_mhz_def first_digits_def is_digit_def int_of_digits_def
  ent_penalty_def entropy_def py_min2_def num_lt_def example_fields_def example_record_def
  example_row_def replace_field_def

lemma expected_ies_eq: "expected_ies = [''WPA2'', ''WPA3'', ''WEP'', ''WPA/TKIP'']"
  by code_simp

lemma lower_examples:
  "py_lower ''Aironet'' = ''aironet''" "py_lower ''Ralink'' = ''ralink''"
  "py_lower ''FreeWifi'' = ''freewifi''" "py_lower ''my-RALINK-net'' = ''my-ralink-net''"
  by code_simp+

lemmas score_defs = compute_scores_def row_item_def row_get_def match_oui_def base_vendor_def
  lower_examples expected_ies_eq multi_channel_cond_def timing_ok_def score_values_def
  num_lt_def float_int_limit_def example_row_def example_scores_def replace_field_def
  set_date_def

lemma example_normalizes: "normalize_row lib example_record = Inr example_row"
  by (simp add: eval_defs)

lemma example_scored: "compute_scores lib example_row = Inr example_scores"
  by (simp add: score_defs)

section \<open>The claims\<close>

subsection \<open>Entropy penalty\<close>

lemma py_slice8_len: "py_slice8 v = Inr w \<Longrightarrow> \<exists>n. py_len v = Inr n"
  by (cases v) simp_all

lemma ent_penalty_len:
  "py_len mac = Inr n \<Longrightarrow> ent_penalty mac = NInt (min (5 * int n div 2) 100)"
  by (simp add: ent_penalty_def entropy_def py_min2_def num_lt_def min_def)

text \<open>
  Claim C1, as amended. For every input record that the normalizer accepts, the
  \<^verbatim>\<open>entropy_penalty\<close> of the row is \<^verbatim>\<open>min(int(len(mac_addr) * 2.5), 100)\<close>, where
  \<^verbatim>\<open>mac_addr\<close> is the whole value of the record (the display field \<^verbatim>\<open>bssid\<close> is its
  first eight characters, and is not what is measured); the penalty lies between 0
  and 100.
\<close>

theorem entropy_penalty_of_whole_mac:
  assumes "normalize_row lib row = Inr r"
  shows "\<exists>mac n bssid8. py_get row ''mac_addr'' (PStr []) = Inr mac \<and> py_len mac = Inr n \<and>
     py_slice8 mac = Inr bssid8 \<and> map_of r ''bssid'' = Some bssid8 \<and>
     map_of r ''entropy_penalty'' = Some (PInt (min (5 * int n div 2) 100)) \<and>
     0 \<le> min (5 * int n div 2) 100 \<and> min (5 * int n div 2) 100 \<le> 100"
proof -
  from assms obtain d bssid8 where d: "row = PDict d"
    and sl: "py_slice8 (dict_get d ''mac_addr'' (PStr [])) = Inr bssid8"
    and b: "map_of r ''bssid'' = Some bssid8"
    and e: "map_of r ''entropy_penalty'' =
      Some (pyval_of_num (ent_penalty (dict_get d ''mac_addr'' (PStr []))))"
    by (elim normalize_row_Inr) simp
  from sl obtain n where n: "py_len (dict_get d ''mac_addr'' (PStr [])) = Inr n"
    using py_slice8_len by blast
  have "map_of r ''entropy_penalty'' = Some (PInt (min (5 * int n div 2) 100))"
    using e by (simp add: ent_penalty_len [OF n])
  moreover have "0 \<le> min (5 * int n div 2) 100" by simp
  ultimately show ?thesis using d sl b n by simp
qed

text \<open>The example record: the address has 17 characters, and the penalty is 42.\<close>

theorem entropy_penalty_of_whole_mac_witness:
  "normalize_row example_lib example_record = Inr example_row \<and>
   py_get example_record ''mac_addr'' (PStr []) = Inr (PStr ''AA:BB:CC:DD:EE:FF'') \<and>
   py_len (PStr ''AA:BB:CC:DD:EE:FF'') = Inr 17 \<and>
   map_of example_row ''entropy_penalty'' = Some (PInt (min (5 * int 17 div 2) 100))"
proof -
  have h: "normalize_row example_lib example_record = Inr example_row"
    by (rule example_normalizes)
  have m: "py_get example_record ''mac_addr'' (PStr []) = Inr (PStr ''AA:BB:CC:DD:EE:FF'')"
    by (simp add: example_record_def example_fields_def dict_get_def)
  from entropy_penalty_of_whole_mac [OF h] m
  have "map_of example_row ''entropy_penalty'' = Some (PInt (min (5 * int 17 div 2) 100))"
    by auto
  with h m show ?thesis by simp
qed

text \<open>
  The claim as it was stated fails on the example record: the display field is
  \<^verbatim>\<open>AA:BB:CC\<close>, for which the stated formula gives 20, and the row holds 42.
\<close>

theorem entropy_penalty_not_of_display_bssid:
  "normalize_row example_lib example_record = Inr example_row \<and>
   map_of example_row ''bssid'' = Some (PStr ''AA:BB:CC'') \<and>
   spec_entropy_penalty ''AA:BB:CC'' = PInt 20 \<and>
   map_of example_row ''entropy_penalty'' = Some (PInt 42) \<and>
   map_of example_row ''entropy_penalty'' \<noteq> Some (spec_entropy_penalty ''AA:BB:CC'')"
  by (simp add: example_normalizes example_row_def spec_entropy_penalty_def)

subsection \<open>RSN mismatch\<close>

text \<open>
  Claim C2. In every score table that \<^verbatim>\<open>compute_scores\<close> returns, the RSN mismatch
  score is exactly 0, whatever the RSN entries of the row are.
\<close>

theorem rsn_mismatch_always_zero:
  "compute_scores lib row = Inr s \<Longrightarrow> rsnmismatch s = NInt 0"
  by (elim compute_scores_Inr) simp

text \<open>A row whose RSN entries are a list holding an expected name and another one.\<close>

theorem rsn_mismatch_always_zero_witness:
  "compute_scores example_lib
     (replace_field ''rsn_ies'' (PList [PStr ''WPA2'', PStr ''FOO'']) example_row)
     = Inr example_scores \<and>
   rsnmismatch example_scores = NInt 0"
proof -
  have h: "compute_scores example_lib
     (replace_field ''rsn_ies'' (PList [PStr ''WPA2'', PStr ''FOO'']) example_row)
     = Inr example_scores"
    by (simp add: score_defs)
  from rsn_mismatch_always_zero [OF h] h show ?thesis by simp
qed

subsection \<open>Total score\<close>

lemma max_step_nonneg:
  assumes "0 \<le> k"
  shows "\<not> num_lt (if num_lt (NInt k) e then e else NInt k) (NInt 0)"
proof (cases e)
  case (NInt i)
  with assms show ?thesis by (auto simp: num_lt_def)
next
  case (NFloat f)
  with assms show ?thesis by (cases f) (auto simp: num_lt_def)
qed

text \<open>
  Claim C3. In every score table that \<^verbatim>\<open>compute_scores\<close> returns, the total score is
  the maximum of the five sub-scores (Python's \<^verbatim>\<open>max\<close> of them, which is their
  greatest value when the entropy term is an integer), not their sum; the sixth entry
  of the table, the total's own initial 0, does not change it.
\<close>

theorem total_score_is_max_of_five:
  assumes "compute_scores lib row = Inr s"
  shows "py_max [ouinomismatch s, rsnmismatch s, multi_channel s, timing_anomalie s,
            entropy_penalty s] = Inr (total_score s) \<and>
         (\<exists>a b c d. ouinomismatch s = NInt a \<and> rsnmismatch s = NInt b \<and>
            multi_channel s = NInt c \<and> timing_anomalie s = NInt d \<and>
            (\<forall>e. entropy_penalty s = NInt e \<longrightarrow> total_score s = NInt (Max {a, b, c, d, e})))"
proof -
  from assms obtain vm mc neg_ep total where
    m: "py_max [if vm then NInt 0 else NInt 3, NInt 0, if mc then NInt 2 else NInt 0,
         if timing_ok lib row then NInt 0 else NInt 3, neg_ep, NInt 0] = Inr total"
    and s: "s = \<lparr>ouinomismatch = (if vm then NInt 0 else NInt 3), rsnmismatch = NInt 0,
         multi_channel = (if mc then NInt 2 else NInt 0),
         timing_anomalie = (if timing_ok lib row then NInt 0 else NInt 3),
         entropy_penalty = neg_ep, total_score = total\<rparr>"
    by (elim compute_scores_Inr)
  define a :: int where "a = (if vm then 0 else 3)"
  define c :: int where "c = (if mc then 2 else 0)"
  define d :: int where "d = (if timing_ok lib row then 0 else 3)"
  define k where "k = max (max (max a 0) c) d"
  define step where "step = (\<lambda>m y. if num_lt m y then y else m)"
  have k0: "0 \<le> k" by (simp add: k_def)
  have four: "step (step (step (NInt a) (NInt 0)) (NInt c)) (NInt d) = NInt k"
    by (simp add: step_def num_lt_def k_def max_def)
  have ifs: "(if vm then NInt 0 else NInt 3) = NInt a" "(if mc then NInt 2 else NInt 0) = NInt c"
    "(if timing_ok lib row then NInt 0 else NInt 3) = NInt d"
    by (simp_all add: a_def c_def d_def)
  have pm: "py_max (x # xs) = Inr (foldl step x xs)" for x xs
    by (simp add: step_def)
  from m have total: "total = step (step (NInt k) neg_ep) (NInt 0)"
    unfolding ifs pm by (simp add: four)
  have last: "step (step (NInt k) neg_ep) (NInt 0) = step (NInt k) neg_ep"
    using max_step_nonneg [OF k0, of neg_ep] by (simp add: step_def)
  have 1: "py_max [NInt a, NInt 0, NInt c, NInt d, neg_ep] = Inr total"
    unfolding pm total last by (simp add: four)
  have 2: "total = NInt (Max {a, 0, c, d, e})" if "neg_ep = NInt e" for e
    unfolding total last that by (simp add: step_def num_lt_def k_def max_def)
  show ?thesis unfolding s ifs using 1 2 by simp
qed

text \<open>
  A row with the sub-scores 3, 0, 2, 3 and -42: the total is 3, where a sum would
  be -34.
\<close>

theorem total_score_is_max_of_five_witness:
  "compute_scores example_lib
     (replace_field ''bandwidth'' (PStr ''40'')
       (replace_field ''beacon_int'' (PFloat (Fin 5)) example_row))
     = Inr \<lparr>ouinomismatch = NInt 3, rsnmismatch = NInt 0, multi_channel = NInt 2,
         timing_anomalie = NInt 3, entropy_penalty = NInt (- 42), total_score = NInt 3\<rparr> \<and>
   py_max [NInt 3, NInt 0, NInt 2, NInt 3, NInt (- 42)] = Inr (NInt 3) \<and>
   NInt 3 = NInt (Max {3, 0, 2, 3, - 42})"
proof -
  have h: "compute_scores example_lib
     (replace_field ''bandwidth'' (PStr ''40'')
       (replace_field ''beacon_int'' (PFloat (Fin 5)) example_row))
     = Inr \<lparr>ouinomismatch = NInt 3, rsnmismatch = NInt 0, multi_channel = NInt 2,
         timing_anomalie = NInt 3, entropy_penalty = NInt (- 42), total_score = NInt 3\<rparr>"
    by (simp add: score_defs)
  from total_score_is_max_of_five [OF h] h show ?thesis by simp
qed

subsection \<open>Optional fields\<close>

text \<open>A field that is missing is never fatal: the row gets the default.\<close>

lemma beacon_int_absent: "map_of d ''beacon_int'' = None \<Longrightarrow> beacon_int lib (PDict d) = Inr NaN"
  by (simp add: beacon_int_def map_of_eq_None_iff)

lemma rssi_dbm_absent: "map_of d ''rssis'' = None \<Longrightarrow> rssi_dbm lib (PDict d) = Inr NaN"
  by (simp add: rssi_dbm_def dict_get_def)

lemma rssi_dbm_all_absent:
  "map_of d ''rssis'' = Some (PDict rs) \<Longrightarrow> map_of rs ''all'' = None \<Longrightarrow>
     rssi_dbm lib (PDict d) = Inr NaN"
  by (simp add: rssi_dbm_def dict_get_def)

lemma rssi_dbm_first:
  "map_of d ''rssis'' = Some (PDict rs) \<Longrightarrow> map_of rs ''all'' = Some (PList (x # xs)) \<Longrightarrow>
     rssi_dbm lib (PDict d) = py_float lib x"
  by (simp add: rssi_dbm_def dict_get_def)

lemma optional_fields_absent:
  "normalize_row lib (PDict [(''ssid'', PStr ''FreeWifi''), (''ie_info'', PDict [])]) =
     Inr [(''date'', PNone), (''bssid'', PStr []), (''oui_vendor'', PStr []),
          (''ssid'', PStr ''FreeWifi''), (''chan'', PStr []), (''bandwidth'', PStr []),
          (''bandwidth_mhz'', PNone), (''beacon_int'', PFloat NaN), (''rssi_dbm'', PFloat NaN),
          (''ie_keys'', PList []), (''rsn_ies'', PStr ''[]''), (''entropy_penalty'', PInt 0)]"
  by (simp add: eval_defs)

text \<open>A value that \<^verbatim>\<open>float\<close> rejects ends the run with the exception of \<^verbatim>\<open>float\<close>.\<close>

lemma beacon_int_not_a_number:
  "py_float lib v = Inl e \<Longrightarrow>
     main lib (PList [PDict (replace_field ''beacon_int'' v example_fields)]) = Inl e"
  by (simp add: main_def eval_defs)

lemma rssi_not_a_number:
  "py_float lib v = Inl e \<Longrightarrow>
     main lib (PList [PDict (replace_field ''rssis'' (PDict [(''all'', PList [v])])
       example_fields)]) = Inl e"
  by (simp add: main_def eval_defs)

text \<open>
  Claim C4: a missing or malformed optional field is never fatal, and a record whose
  \<^verbatim>\<open>beacon_int\<close> or \<^verbatim>\<open>rssis.all[0]\<close> is present but not a number does not end the
  run. The script does otherwise on the input \<^verbatim>\<open>[{..., "beacon_int": null, ...}]\<close>
  and on the input \<^verbatim>\<open>[{..., "rssis": {"all": [null]}, ...}]\<close>, the other fields being
  those of the example record: the run ends with \<^verbatim>\<open>TypeError\<close> and writes nothing.
\<close>

theorem malformed_beacon_int_or_rssi_aborts:
  "main lib (PList [PDict (replace_field ''beacon_int'' PNone example_fields)]) = Inl TypeError \<and>
   main lib (PList [PDict (replace_field ''rssis'' (PDict [(''all'', PList [PNone])])
     example_fields)]) = Inl TypeError"
  by (simp add: beacon_int_not_a_number rssi_not_a_number)

text \<open>
  Claim C5: \<^verbatim>\<open>rssi_dbm\<close> is the first element of \<^verbatim>\<open>rssis.all\<close>, and when the list
  is absent or empty the normalizer succeeds with the not-a-number sentinel. The script
  does otherwise on the input \<^verbatim>\<open>[{..., "rssis": {"all": []}, ...}]\<close>, the other fields
  being those of the example record: the index 0 of the empty list raises
  \<^verbatim>\<open>IndexError\<close>, in the field, in the pass of the loop and in the run, which writes
  nothing.
\<close>

theorem empty_rssi_list_aborts:
  "rssi_dbm lib (PDict (replace_field ''rssis'' (PDict [(''all'', PList [])]) example_fields))
     = Inl IndexError \<and>
   normalize_row lib (PDict (replace_field ''rssis'' (PDict [(''all'', PList [])])
     example_fields)) = Inl IndexError \<and>
   main lib (PList [PDict (replace_field ''rssis'' (PDict [(''all'', PList [])])
     example_fields)]) = Inl IndexError"
  by (simp add: main_def eval_defs)

subsection \<open>Multi-channel\<close>

lemma starts_with_iff: "starts_with s p \<longleftrightarrow> (\<exists>t. s = p @ t)"
  by (induction s p rule: starts_with.induct) auto

text \<open>
  The scorer by itself: on any row it is given, the score is 2 exactly when the
  bandwidth text starts with 40 or 80 or the row has a truthy \<^verbatim>\<open>multi_channel\<close> entry.
\<close>

lemma multi_channel_cond_Inr:
  assumes "multi_channel_cond row = Inr mc"
  shows "\<exists>bw. map_of row ''bandwidth'' = Some (PStr bw) \<and>
     mc = (starts_with bw ''40'' \<or> starts_with bw ''80'' \<or> py_truthy (row_get row ''multi_channel''))"
proof -
  from assms obtain v where v: "row_item row ''bandwidth'' = Inr v"
    unfolding multi_channel_cond_def by (elim bnd_InrE)
  from assms v obtain bw where bw: "v = PStr bw"
    unfolding multi_channel_cond_def by (cases v) simp_all
  from assms show ?thesis
    unfolding multi_channel_cond_def v bw
    by (simp add: row_item_Inr [symmetric] v bw split: if_splits)
qed

lemma compute_scores_multi_channel:
  assumes "compute_scores lib row = Inr s"
  shows "\<exists>bw. map_of row ''bandwidth'' = Some (PStr bw) \<and>
     multi_channel s =
       (if starts_with bw ''40'' \<or> starts_with bw ''80'' \<or> py_truthy (row_get row ''multi_channel'')
        then NInt 2 else NInt 0)"
proof -
  from assms obtain mc where mc: "multi_channel_cond row = Inr mc"
    and s: "multi_channel s = (if mc then NInt 2 else NInt 0)"
    by (elim compute_scores_Inr) simp
  from multi_channel_cond_Inr [OF mc] s show ?thesis by auto
qed

text \<open>The rows of the table have the twelve columns, and no \<^verbatim>\<open>multi_channel\<close>.\<close>

lemma normalize_row_columns: "normalize_row lib row = Inr r \<Longrightarrow> map fst r = columns"
  by (elim normalize_row_Inr) (simp add: columns_def)

lemma set_date_keys: "map fst (set_date r dt) = map fst r"
  by (induction r) (simp_all add: set_date_def)

lemma map_of_set_date: "k \<noteq> ''date'' \<Longrightarrow> map_of (set_date r dt) k = map_of r k"
  by (induction r) (auto simp: set_date_def)

lemma normalize_row_no_flag:
  assumes "normalize_row lib row = Inr r"
  shows "row_get (set_date r dt) ''multi_channel'' = PNone"
proof -
  have "map fst (set_date r dt) = columns"
    using normalize_row_columns [OF assms] by (simp add: set_date_keys)
  then have "''multi_channel'' \<notin> set (map fst (set_date r dt))"
    by (simp add: columns_def)
  then have "map_of (set_date r dt) ''multi_channel'' = None"
    by (simp add: map_of_eq_None_iff)
  then show ?thesis by (simp add: row_get_def)
qed

text \<open>
  So in a run the flag of the input record never reaches the scorer: the score of a
  row of the table depends on the bandwidth text alone.
\<close>

lemma multi_channel_of_table_row:
  assumes "normalize_row lib row = Inr r" and "compute_scores lib (set_date r dt) = Inr s"
  shows "\<exists>bw. map_of r ''bandwidth'' = Some (PStr bw) \<and>
     multi_channel s = (if starts_with bw ''40'' \<or> starts_with bw ''80'' then NInt 2 else NInt 0)"
  using compute_scores_multi_channel [OF assms(2)] normalize_row_no_flag [OF assms(1), of dt]
  by (simp add: map_of_set_date)

text \<open>
  Claim C6: the multi-channel score is 2 exactly when the bandwidth text starts with
  40 or 80 or the record carries a \<^verbatim>\<open>multi_channel\<close> flag that is present and truthy.
  The script does otherwise on the example record with the flag added,
  \<^verbatim>\<open>{..., "bandwidth": "HT/20", ..., "multi_channel": true}\<close>: the record carries the
  flag, the row made of it is the row of the example record, whatever date the library
  gives it, and its multi-channel score is 0.
\<close>

theorem multi_channel_flag_is_dropped:
  "map_of (example_fields @ [(''multi_channel'', PBool True)]) ''multi_channel''
     = Some (PBool True) \<and>
   normalize_row lib (PDict (example_fields @ [(''multi_channel'', PBool True)]))
     = Inr example_row \<and>
   compute_scores lib (set_date example_row dt) = Inr example_scores \<and>
   multi_channel example_scores = NInt 0"
proof -
  have "normalize_row lib (PDict (example_fields @ [(''multi_channel'', PBool True)]))
      = Inr example_row"
    by (simp add: eval_defs)
  moreover have "compute_scores lib (set_date example_row dt) = Inr example_scores"
    by (simp add: score_defs)
  ultimately show ?thesis
    by (simp add: example_fields_def example_scores_def)
qed

subsection \<open>Timing anomaly\<close>

lemma timing_ok_iff:
  "timing_ok lib row \<longleftrightarrow>
     (\<exists>q. bnd (row_item row ''beacon_int'') (py_float lib) = Inr (Fin q) \<and> 10 \<le> q \<and> q \<le> 10000)"
proof (cases "bnd (row_item row ''beacon_int'') (py_float lib)")
  case (Inl e)
  then show ?thesis by (simp add: timing_ok_def)
next
  case (Inr f)
  then show ?thesis by (cases f) (auto simp: timing_ok_def)
qed

text \<open>
  Claim C7. In every score table that \<^verbatim>\<open>compute_scores\<close> returns, the timing anomaly
  is 0 exactly when \<^verbatim>\<open>float(row["beacon_int"])\<close> is a number between 10 and 10000,
  both included, and 3 otherwise: when the entry is missing, when \<^verbatim>\<open>float\<close> rejects it,
  when it is not-a-number or infinite, and when it is out of the range.
\<close>

theorem timing_anomaly_range:
  assumes "compute_scores lib row = Inr s"
  shows "timing_anomalie s =
     (if \<exists>q. bnd (row_item row ''beacon_int'') (py_float lib) = Inr (Fin q) \<and> 10 \<le> q \<and> q \<le> 10000
      then NInt 0 else NInt 3)"
proof -
  from assms have "timing_anomalie s = (if timing_ok lib row then NInt 0 else NInt 3)"
    by (elim compute_scores_Inr) simp
  then show ?thesis by (simp only: timing_ok_iff)
qed

text \<open>
  The boundaries: 10 and 10000 give 0; 9.999 and 10000.001 give 3, and so do the two
  floats nearest to them (\<open>5628936584259699 / 2 ^ 49\<close> and \<open>2748779344317907 / 2 ^ 38\<close>),
  the not-a-number sentinel of a record without the field, and \<^verbatim>\<open>None\<close>, which is
  not a number.
\<close>

theorem timing_anomaly_range_witness:
  "map_sum id timing_anomalie (compute_scores example_lib
      (replace_field ''beacon_int'' (PFloat (Fin 10)) example_row)) = Inr (NInt 0) \<and>
   map_sum id timing_anomalie (compute_scores example_lib
      (replace_field ''beacon_int'' (PFloat (Fin (9999 / 1000))) example_row)) = Inr (NInt 3) \<and>
   map_sum id timing_anomalie (compute_scores example_lib
      (replace_field ''beacon_int'' (PFloat (Fin 10000)) example_row)) = Inr (NInt 0) \<and>
   map_sum id timing_anomalie (compute_scores example_lib
      (replace_field ''beacon_int'' (PFloat (Fin (10000001 / 1000))) example_row)) = Inr (NInt 3) \<and>
   map_sum id timing_anomalie (compute_scores example_lib
      (replace_field ''beacon_int'' (PFloat (Fin (5628936584259699 / 562949953421312)))
        example_row)) = Inr (NInt 3) \<and>
   map_sum id timing_anomalie (compute_scores example_lib
      (replace_field ''beacon_int'' (PFloat (Fin (2748779344317907 / 274877906944)))
        example_row)) = Inr (NInt 3) \<and>
   map_sum id timing_anomalie (compute_scores example_lib
      (replace_field ''beacon_int'' (PFloat NaN) example_row)) = Inr (NInt 3) \<and>
   map_sum id timing_anomalie (compute_scores example_lib
      (replace_field ''beacon_int'' PNone example_row)) = Inr (NInt 3)"
proof -
  have r1: "compute_scores example_lib
      (replace_field ''beacon_int'' (PFloat (Fin 10)) example_row) = Inr example_scores"
    by (simp add: score_defs)
  have r2: "compute_scores example_lib
      (replace_field ''beacon_int'' (PFloat (Fin (9999 / 1000))) example_row) =
      Inr (example_scores\<lparr>timing_anomalie := NInt 3\<rparr>)"
    by (simp add: score_defs)
  have r3: "compute_scores example_lib
      (replace_field ''beacon_int'' (PFloat (Fin 10000)) example_row) = Inr example_scores"
    by (simp add: score_defs)
  have r4: "compute_scores example_lib
      (replace_field ''beacon_int'' (PFloat (Fin (10000001 / 1000))) example_row) =
      Inr (example_scores\<lparr>timing_anomalie := NInt 3\<rparr>)"
    by (simp add: score_defs)
  have r7: "compute_scores example_lib
      (replace_field ''beacon_int'' (PFloat (Fin (5628936584259699 / 562949953421312)))
        example_row) = Inr (example_scores\<lparr>timing_anomalie := NInt 3\<rparr>)"
    by (simp add: score_defs)
  have r8: "compute_scores example_lib
      (replace_field ''beacon_int'' (PFloat (Fin (2748779344317907 / 274877906944)))
        example_row) = Inr (example_scores\<lparr>timing_anomalie := NInt 3\<rparr>)"
    by (simp add: score_defs)
  have r5: "compute_scores example_lib
      (replace_field ''beacon_int'' (PFloat NaN) example_row) =
      Inr (example_scores\<lparr>timing_anomalie := NInt 3\<rparr>)"
    by (simp add: score_defs)
  have r6: "compute_scores example_lib
      (replace_field ''beacon_int'' PNone example_row) =
      Inr (example_scores\<lparr>timing_anomalie := NInt 3\<rparr>)"
    by (simp add: score_defs)
  show ?thesis
    using timing_anomaly_range [OF r1] timing_anomaly_range [OF r2]
      timing_anomaly_range [OF r3] timing_anomaly_range [OF r4]
      timing_anomaly_range [OF r5] timing_anomaly_range [OF r6]
      timing_anomaly_range [OF r7] timing_anomaly_range [OF r8]
    by (simp add: r1 r2 r3 r4 r5 r6 r7 r8 example_scores_def)
qed

subsection \<open>Missing SSID\<close>

lemma normalize_row_no_ssid:
  "map_of d ''ssid'' = None \<Longrightarrow> isl (normalize_row lib (PDict d))"
  unfolding normalize_row_def Let_def
  by (simp add: isl_bnd split: sum.splits)

lemma normalize_rows_fail:
  "r \<in> set rs \<Longrightarrow> isl (normalize_row lib r) \<Longrightarrow> isl (normalize_rows lib rs)"
  by (induction rs) (auto simp: isl_bnd split: sum.splits)

text \<open>
  Claim C8. If a record of the input list has no \<^verbatim>\<open>ssid\<close> field, the run ends with
  an exception: it does not reach \<^verbatim>\<open>write_csv\<close>, and no file is written, whatever the
  other records are.
\<close>

theorem missing_ssid_aborts:
  assumes "PDict d \<in> set records" and "map_of d ''ssid'' = None"
  shows "isl (main lib (PList records))"
proof -
  have "isl (normalize_rows lib records)"
    using assms by (blast intro: normalize_rows_fail normalize_row_no_ssid)
  then obtain e where "normalize_rows lib records = Inl e"
    by (cases "normalize_rows lib records") simp_all
  then show ?thesis by (simp add: main_def)
qed

text \<open>
  The example record followed by the same record without its \<^verbatim>\<open>ssid\<close>: the run ends
  with \<^verbatim>\<open>KeyError\<close>, and the first record is not written either.
\<close>

theorem missing_ssid_aborts_witness:
  "PDict (remove_field ''ssid'' example_fields)
     \<in> set [example_record, PDict (remove_field ''ssid'' example_fields)] \<and>
   map_of (remove_field ''ssid'' example_fields) ''ssid'' = None \<and>
   isl (main example_lib
     (PList [example_record, PDict (remove_field ''ssid'' example_fields)])) \<and>
   main example_lib (PList [example_record, PDict (remove_field ''ssid'' example_fields)])
     = Inl KeyError"
proof -
  have 1: "PDict (remove_field ''ssid'' example_fields)
      \<in> set [example_record, PDict (remove_field ''ssid'' example_fields)]"
    by simp
  have 2: "map_of (remove_field ''ssid'' example_fields) ''ssid'' = None"
    by (simp add: remove_field_def example_fields_def)
  have 3: "normalize_row example_lib (PDict (remove_field ''ssid'' example_fields)) = Inl KeyError"
    by (simp add: eval_defs remove_field_def)
  have 4: "main example_lib
      (PList [example_record, PDict (remove_field ''ssid'' example_fields)]) = Inl KeyError"
    by (simp add: main_def example_normalizes 3)
  from missing_ssid_aborts [OF 1 2, of example_lib] 1 2 4 show ?thesis by simp
qed

subsection \<open>OUI mismatch\<close>

lemma str_in_iff: "str_in needle hay \<longleftrightarrow> (\<exists>pre post. hay = pre @ needle @ post)"
proof (induction hay)
  case Nil
  then show ?case by auto
next
  case (Cons c cs)
  show ?case
  proof
    assume "str_in needle (c # cs)"
    then consider "starts_with (c # cs) needle" | "str_in needle cs" by auto
    then show "\<exists>pre post. c # cs = pre @ needle @ post"
    proof cases
      case 1
      then obtain t where "c # cs = needle @ t" by (auto simp: starts_with_iff)
      then have "c # cs = [] @ needle @ t" by simp
      then show ?thesis by blast
    next
      case 2
      then obtain pre post where "cs = pre @ needle @ post" using Cons.IH by auto
      then have "c # cs = (c # pre) @ needle @ post" by simp
      then show ?thesis by blast
    qed
  next
    assume "\<exists>pre post. c # cs = pre @ needle @ post"
    then obtain pre post where e: "c # cs = pre @ needle @ post" by auto
    show "str_in needle (c # cs)"
    proof (cases pre)
      case Nil
      with e have "starts_with (c # cs) needle" by (auto simp: starts_with_iff)
      then show ?thesis by simp
    next
      case (Cons a pre')
      with e have "cs = pre' @ needle @ post" by simp
      then have "str_in needle cs" using Cons.IH by blast
      then show ?thesis by simp
    qed
  qed
qed

lemma match_oui_Inr:
  "match_oui ssid vendor = Inr vm \<Longrightarrow>
     \<exists>s. ssid = PStr s \<and>
       vm = (str_in (py_lower ''Aironet'') (py_lower s) \<or> str_in (py_lower ''Ralink'') (py_lower s))"
  by (cases ssid) (auto simp: match_oui_def base_vendor_def split: if_splits)

text \<open>
  Claim C9. In every score table that \<^verbatim>\<open>compute_scores\<close> returns, the SSID of the row
  is a string, and the OUI mismatch score is 0 when the lower-cased SSID contains the
  lower-cased name \<^verbatim>\<open>Aironet\<close> or \<^verbatim>\<open>Ralink\<close> as a substring and 3 when it contains
  neither. The score is a function of the SSID alone: neither the vendor or address
  fields nor the OUI prefixes of the table enter it.
\<close>

theorem oui_mismatch_reads_ssid_only:
  assumes "compute_scores lib row = Inr s"
  shows "\<exists>ssid. map_of row ''ssid'' = Some (PStr ssid) \<and>
     ouinomismatch s =
       (if \<exists>key \<in> {''Aironet'', ''Ralink''}. \<exists>pre post. py_lower ssid = pre @ py_lower key @ post
        then NInt 0 else NInt 3)"
proof -
  from assms obtain oui ssid vm where
    1: "row_item row ''ssid'' = Inr ssid" and 2: "match_oui ssid oui = Inr vm"
    and 3: "ouinomismatch s = (if vm then NInt 0 else NInt 3)"
    by (elim compute_scores_Inr) simp
  from 2 obtain t where t: "ssid = PStr t"
    and vm: "vm = (str_in (py_lower ''Aironet'') (py_lower t) \<or> str_in (py_lower ''Ralink'') (py_lower t))"
    using match_oui_Inr by blast
  have "map_of row ''ssid'' = Some (PStr t)" using 1 t by (simp add: row_item_Inr)
  moreover have "vm \<longleftrightarrow>
      (\<exists>key \<in> {''Aironet'', ''Ralink''}. \<exists>pre post. py_lower t = pre @ py_lower key @ post)"
    unfolding vm str_in_iff by blast
  ultimately show ?thesis using 3 by auto
qed

text \<open>
  Two rows: the SSID \<^verbatim>\<open>FreeWifi\<close> holds no vendor name and scores 3; the SSID
  \<^verbatim>\<open>my-RALINK-net\<close> holds one, in capitals, and scores 0.
\<close>

theorem oui_mismatch_reads_ssid_only_witness:
  "compute_scores example_lib example_row = Inr example_scores \<and>
   map_of example_row ''ssid'' = Some (PStr ''FreeWifi'') \<and>
   ouinomismatch example_scores = NInt 3 \<and>
   \<not> (\<exists>key \<in> {''Aironet'', ''Ralink''}. \<exists>pre post.
        py_lower ''FreeWifi'' = pre @ py_lower key @ post) \<and>
   compute_scores example_lib (replace_field ''ssid'' (PStr ''my-RALINK-net'') example_row)
     = Inr (example_scores\<lparr>ouinomismatch := NInt 0, total_score := NInt 0\<rparr>) \<and>
   (\<exists>key \<in> {''Aironet'', ''Ralink''}. \<exists>pre post.
        py_lower ''my-RALINK-net'' = pre @ py_lower key @ post)"
proof -
  have h1: "compute_scores example_lib example_row = Inr example_scores"
    by (rule example_scored)
  have s1: "map_of example_row ''ssid'' = Some (PStr ''FreeWifi'')"
    by (simp add: example_row_def)
  have o1: "ouinomismatch example_scores = NInt 3"
    by (simp add: example_scores_def)
  have h2: "compute_scores example_lib
      (replace_field ''ssid'' (PStr ''my-RALINK-net'') example_row)
      = Inr (example_scores\<lparr>ouinomismatch := NInt 0, total_score := NInt 0\<rparr>)"
    by (simp add: score_defs)
  have s2: "map_of (replace_field ''ssid'' (PStr ''my-RALINK-net'') example_row) ''ssid''
      = Some (PStr ''my-RALINK-net'')"
    by (simp add: example_row_def replace_field_def)
  from oui_mismatch_reads_ssid_only [OF h1] s1 o1
  have n1: "\<not> (\<exists>key \<in> {''Aironet'', ''Ralink''}. \<exists>pre post.
        py_lower ''FreeWifi'' = pre @ py_lower key @ post)"
    by (auto split: if_splits)
  from oui_mismatch_reads_ssid_only [OF h2] s2
  have n2: "\<exists>key \<in> {''Aironet'', ''Ralink''}. \<exists>pre post.
        py_lower ''my-RALINK-net'' = pre @ py_lower key @ post"
    by (auto simp: example_scores_def split: if_splits)
  from h1 s1 o1 n1 h2 n2 show ?thesis by blast
qed

subsection \<open>The vendor field\<close>

text \<open>
  Claim C10. Two rows that agree on every column but \<^verbatim>\<open>oui_vendor\<close> get the same
  result from \<^verbatim>\<open>compute_scores\<close>, the same score table or the same exception:
  \<^verbatim>\<open>match_oui\<close> does not read its second argument.
\<close>

theorem vendor_never_influences_scores:
  assumes same: "\<forall>k. k \<noteq> ''oui_vendor'' \<longrightarrow> map_of r1 k = map_of r2 k"
    and v1: "map_of r1 ''oui_vendor'' = Some v1"
    and v2: "map_of r2 ''oui_vendor'' = Some v2"
  shows "compute_scores lib r1 = compute_scores lib r2"
proof -
  have item: "row_item r1 k = row_item r2 k" if "k \<noteq> ''oui_vendor''" for k
    using same that by (simp add: row_item_def)
  have get: "row_get r1 k = row_get r2 k" if "k \<noteq> ''oui_vendor''" for k
    using same that by (simp add: row_get_def)
  have o1: "row_item r1 ''oui_vendor'' = Inr v1" and o2: "row_item r2 ''oui_vendor'' = Inr v2"
    using v1 v2 by (simp_all add: row_item_def)
  have ssid: "row_item r1 ''ssid'' = row_item r2 ''ssid''" by (rule item) simp
  have ep: "row_item r1 ''entropy_penalty'' = row_item r2 ''entropy_penalty''" by (rule item) simp
  have rsn: "row_item r1 ''rsn_ies'' = row_item r2 ''rsn_ies''" by (rule item) simp
  have bw: "row_item r1 ''bandwidth'' = row_item r2 ''bandwidth''" by (rule item) simp
  have bi: "row_item r1 ''beacon_int'' = row_item r2 ''beacon_int''" by (rule item) simp
  have flag: "row_get r1 ''multi_channel'' = row_get r2 ''multi_channel''" by (rule get) simp
  have mc: "multi_channel_cond r1 = multi_channel_cond r2"
    unfolding multi_channel_cond_def bw flag ..
  have tk: "timing_ok lib r1 = timing_ok lib r2"
    unfolding timing_ok_def bi ..
  show ?thesis
    unfolding compute_scores_def o1 o2 bnd.simps mc tk match_oui_def ssid ep rsn ..
qed

text \<open>
  The example row, whose vendor is \<^verbatim>\<open>Acme\<close>, and the same row with the vendor
  \<^verbatim>\<open>Aironet\<close>, a name of the table: the scores are the same.
\<close>

theorem vendor_never_influences_scores_witness:
  "map_of example_row ''oui_vendor'' = Some (PStr ''Acme'') \<and>
   map_of (replace_field ''oui_vendor'' (PStr ''Aironet'') example_row) ''oui_vendor''
     = Some (PStr ''Aironet'') \<and>
   compute_scores example_lib example_row = Inr example_scores \<and>
   compute_scores example_lib (replace_field ''oui_vendor'' (PStr ''Aironet'') example_row)
     = Inr example_scores"
proof -
  have same: "\<forall>k. k \<noteq> ''oui_vendor'' \<longrightarrow>
      map_of example_row k = map_of (replace_field ''oui_vendor'' (PStr ''Aironet'') example_row) k"
    by (simp add: example_row_def replace_field_def)
  have v1: "map_of example_row ''oui_vendor'' = Some (PStr ''Acme'')"
    by (simp add: example_row_def)
  have v2: "map_of (replace_field ''oui_vendor'' (PStr ''Aironet'') example_row) ''oui_vendor''
      = Some (PStr ''Aironet'')"
    by (simp add: example_row_def replace_field_def)
  from vendor_never_influences_scores [OF same v1 v2, of example_lib] v1 v2
  show ?thesis by (simp add: example_scored)
qed

section \<open>The rows that a run scores\<close>

text \<open>
  The scorer does not read the date, so the parsing of the dates between the
  normalizer and the scorer changes no score; and the entropy term of a row of the
  table is an integer between -100 and 0, so that its total score is the greatest of
  five integers.
\<close>

lemma compute_scores_set_date:
  "compute_scores lib (set_date r dt) = compute_scores lib r"
proof -
  have item: "row_item (set_date r dt) k = row_item r k" if "k \<noteq> ''date''" for k
    using that by (simp add: row_item_def map_of_set_date)
  have get: "row_get (set_date r dt) k = row_get r k" if "k \<noteq> ''date''" for k
    using that by (simp add: row_get_def map_of_set_date)
  have ov: "row_item (set_date r dt) ''oui_vendor'' = row_item r ''oui_vendor''" by (rule item) simp
  have ssid: "row_item (set_date r dt) ''ssid'' = row_item r ''ssid''" by (rule item) simp
  have ep: "row_item (set_date r dt) ''entropy_penalty'' = row_item r ''entropy_penalty''"
    by (rule item) simp
  have rsn: "row_item (set_date r dt) ''rsn_ies'' = row_item r ''rsn_ies''" by (rule item) simp
  have bw: "row_item (set_date r dt) ''bandwidth'' = row_item r ''bandwidth''" by (rule item) simp
  have bi: "row_item (set_date r dt) ''beacon_int'' = row_item r ''beacon_int''" by (rule item) simp
  have flag: "row_get (set_date r dt) ''multi_channel'' = row_get r ''multi_channel''"
    by (rule get) simp
  have mc: "multi_channel_cond (set_date r dt) = multi_channel_cond r"
    unfolding multi_channel_cond_def bw flag ..
  have tk: "timing_ok lib (set_date r dt) = timing_ok lib r"
    unfolding timing_ok_def bi ..
  show ?thesis
    unfolding compute_scores_def mc tk ov ssid ep rsn ..
qed

lemma entropy_term_of_table_row:
  assumes "normalize_row lib row = Inr r" and "compute_scores lib r = Inr s"
  shows "\<exists>e. entropy_penalty s = NInt e \<and> - 100 \<le> e \<and> e \<le> 0"
proof -
  from assms(1) obtain d bssid8 where
    sl: "py_slice8 (dict_get d ''mac_addr'' (PStr [])) = Inr bssid8"
    and e: "map_of r ''entropy_penalty'' =
      Some (pyval_of_num (ent_penalty (dict_get d ''mac_addr'' (PStr []))))"
    by (elim normalize_row_Inr) simp
  from sl obtain n where n: "py_len (dict_get d ''mac_addr'' (PStr [])) = Inr n"
    using py_slice8_len by blast
  have ep: "row_item r ''entropy_penalty'' = Inr (PInt (min (5 * int n div 2) 100))"
    using e by (simp add: ent_penalty_len [OF n] row_item_Inr)
  from assms(2) obtain v neg_ep where "row_item r ''entropy_penalty'' = Inr v"
    and "py_neg v = Inr neg_ep" and "entropy_penalty s = neg_ep"
    by (elim compute_scores_Inr) simp
  with ep have "entropy_penalty s = NInt (- min (5 * int n div 2) 100)" by auto
  then show ?thesis by simp
qed

end
